theory Spec2Isabelle
  imports Complex_Main "HOL-Library.Multiset" "HOL-Library.Char_ord" "HOL-Library.List_Lexorder"
    "HOL-Library.Product_Lexorder" "HOL-Library.Log_Nat"
begin

section \<open>Floats\<close>

text \<open>
  An energy value is a Python float. It is modelled as the real number it stands for;
  infinities, NaN, overflow and subnormal numbers are left out. A float operation computes
  the exact result and rounds it to the nearest number with a 53-bit significand, a tie
  going to the even significand: \<open>float_exponent x\<close> is the \<open>e\<close> with
  \<open>2^e \<le> |x| < 2^(e+1)\<close>, and the floats around \<open>x\<close> are the multiples of
  \<open>2^(e-52)\<close>.
\<close>

definition two_power :: "int \<Rightarrow> real" where
  "two_power e = (if 0 \<le> e then 2 ^ nat e else 1 / 2 ^ nat (- e))"

definition float_exponent :: "real \<Rightarrow> int" where
  "float_exponent x =
     (if 1 \<le> \<bar>x\<bar> then bitlen \<lfloor>\<bar>x\<bar>\<rfloor> - 1 else - bitlen (\<lceil>1 / \<bar>x\<bar>\<rceil> - 1))"

definition round_half_even :: "real \<Rightarrow> int" where
  "round_half_even n =
     (let f = \<lfloor>n\<rfloor>
      in if n - of_int f < 1 / 2 then f
         else if 1 / 2 < n - of_int f then f + 1
         else if even f then f else f + 1)"

definition round_float :: "real \<Rightarrow> real" where
  "round_float x =
     (if x = 0 then 0
      else let ulp = two_power (float_exponent x - 52)
           in of_int (round_half_even (x / ulp)) * ulp)"

definition float_add :: "real \<Rightarrow> real \<Rightarrow> real" where
  "float_add a b = round_float (a + b)"

definition float_sub :: "real \<Rightarrow> real \<Rightarrow> real" where
  "float_sub a b = round_float (a - b)"

datatype exception = ZeroDivisionError

definition truediv :: "real \<Rightarrow> real \<Rightarrow> exception + real" where
  "truediv a b = (if b = 0 then Inl ZeroDivisionError else Inr (round_float (a / b)))"

text \<open>
  Python's builtin \<open>sum\<close> starts from 0 and adds the items from left to right, one
  float addition each (CPython up to 3.11). pandas' \<open>sum\<close> of a group
  (\<open>group_sum\<close>) is a Kahan summation: it carries a compensation term beside the
  running sum.
\<close>

definition sum_builtin :: "real list \<Rightarrow> real" where
  "sum_builtin vs = foldl float_add 0 vs"

definition kahan_step :: "real \<times> real \<Rightarrow> real \<Rightarrow> real \<times> real" where
  "kahan_step st val =
     (let (sumx, compensation) = st;
          y = float_sub val compensation;
          t = float_add sumx y
      in (t, float_sub (float_sub t sumx) y))"

definition group_sum :: "real list \<Rightarrow> real" where
  "group_sum vs = fst (foldl kahan_step (0, 0) vs)"

section \<open>Object model: MeterReading and Building\<close>

text \<open>
  A timestamp is a pandas \<open>Timestamp\<close>: the number of nanoseconds since
  1970-01-01 00:00 (wall-clock time, no time zone).
\<close>

type_synonym timestamp = int

record MeterReading =
  reading_timestamp :: timestamp
  reading_kwh :: real

record Building =
  name :: string
  meter_readings :: "MeterReading list"

definition add_reading :: "Building \<Rightarrow> timestamp \<Rightarrow> real \<Rightarrow> Building" where
  "add_reading b t k =
     b\<lparr>meter_readings := meter_readings b @ [\<lparr>reading_timestamp = t, reading_kwh = k\<rparr>]\<rparr>"

definition calculate_total_consumption :: "Building \<Rightarrow> real" where
  "calculate_total_consumption b = sum_builtin (map reading_kwh (meter_readings b))"

text \<open>The division raises \<open>ZeroDivisionError\<close> when the divisor is 0.\<close>

definition calculate_average_consumption :: "Building \<Rightarrow> exception + real" where
  "calculate_average_consumption b =
     (if meter_readings b = [] then Inr 0
      else truediv (calculate_total_consumption b) (real (length (meter_readings b))))"

text \<open>
  Python's \<open>max(xs, key=f)\<close> walks the list once and replaces the item it holds only
  when the next key is strictly greater.
\<close>

fun max_by :: "('a \<Rightarrow> real) \<Rightarrow> 'a \<Rightarrow> 'a list \<Rightarrow> 'a" where
  "max_by key best [] = best"
| "max_by key best (x # xs) = max_by key (if key best < key x then x else best) xs"

definition get_peak_consumption :: "Building \<Rightarrow> MeterReading option" where
  "get_peak_consumption b =
     (case meter_readings b of [] \<Rightarrow> None | r # rs \<Rightarrow> Some (max_by reading_kwh r rs))"

record BuildingManager =
  buildings :: "string \<rightharpoonup> Building"

definition add_building :: "BuildingManager \<Rightarrow> Building \<Rightarrow> BuildingManager" where
  "add_building m b = m\<lparr>buildings := (buildings m)(name b \<mapsto> b)\<rparr>"

definition get_building :: "BuildingManager \<Rightarrow> string \<Rightarrow> Building option" where
  "get_building m n = buildings m n"

section \<open>Data frames\<close>

text \<open>
  The data frame that \<open>ingest_data\<close> returns and the aggregations read. Only the columns
  the program works with are modelled: \<open>timestamp\<close>, \<open>kwh\<close>, \<open>building\<close>, and the two
  derived columns \<open>date\<close> and \<open>hour\<close>, which exist only after an aggregation has
  assigned them (\<open>None\<close> until then). Further columns of a CSV file are passed through by
  the program untouched and are left out. A date is a day number (days since 1970-01-01).
\<close>

record row =
  timestamp :: timestamp
  kwh :: real
  building :: string
  date :: "int option"
  hour :: "int option"

record DataFrame =
  columns :: "string list"
  rows :: "row list"

definition ns_per_hour :: int where
  "ns_per_hour = 3600000000000"

definition ns_per_day :: int where
  "ns_per_day = 24 * ns_per_hour"

definition date_of :: "timestamp \<Rightarrow> int" where
  "date_of t = t div ns_per_day"

definition hour_of :: "timestamp \<Rightarrow> int" where
  "hour_of t = (t div ns_per_hour) mod 24"

definition add_column :: "string \<Rightarrow> string list \<Rightarrow> string list" where
  "add_column c cols = (if c \<in> set cols then cols else cols @ [c])"

section \<open>Ingestion\<close>

text \<open>
  A cell of the \<open>timestamp\<close> column is described by what
  \<open>pd.to_datetime(..., errors='coerce')\<close> makes of it: a timestamp (\<open>TsValue\<close>), or
  \<open>NaT\<close> for an empty cell (\<open>TsMissing\<close>) and for text that does not parse
  (\<open>TsText\<close>). A cell of the \<open>kwh\<close> column is null (\<open>KwhMissing\<close>), or text that
  \<open>pd.to_numeric(..., errors='coerce')\<close> turns into NaN (\<open>KwhText\<close>), or a number
  (\<open>KwhNumber\<close>).
\<close>

datatype timestamp_cell = TsMissing | TsText string | TsValue timestamp

datatype kwh_cell = KwhMissing | KwhText string | KwhNumber real

record raw_row =
  raw_timestamp :: timestamp_cell
  raw_kwh :: kwh_cell

text \<open>
  \<open>pd.read_csv(file_path, on_bad_lines='skip')\<close> raises or returns a frame: its column
  names and its rows. A file is a \<open>Path\<close> with its \<open>name\<close> and \<open>stem\<close> and what
  reading it gives; a directory is missing or lists its \<open>*.csv\<close> files.
\<close>

datatype read_result = ReadError | Frame "string list" "raw_row list"

record csv_file =
  path_name :: string
  path_stem :: string
  read_csv :: read_result

datatype directory = NoDirectory | Directory "csv_file list"

fun to_datetime :: "timestamp_cell \<Rightarrow> timestamp option" where
  "to_datetime (TsValue t) = Some t"
| "to_datetime _ = None"

fun to_numeric :: "kwh_cell \<Rightarrow> real option" where
  "to_numeric (KwhNumber v) = Some v"
| "to_numeric _ = None"

fun isna :: "kwh_cell \<Rightarrow> bool" where
  "isna KwhMissing = True"
| "isna _ = False"

definition clean_frame :: "string \<Rightarrow> raw_row list \<Rightarrow> row list" where
  "clean_frame building_name rws =
     (let df1 = map (\<lambda>r. (to_datetime (raw_timestamp r), raw_kwh r)) rws;
          df2 = filter (\<lambda>(t, k). t \<noteq> None \<and> \<not> isna k) df1;
          df3 = map (\<lambda>(t, k). (t, to_numeric k)) df2
      in List.map_filter
           (\<lambda>(t, k). case (t, k) of
                (Some t', Some k') \<Rightarrow>
                  Some \<lparr>timestamp = t', kwh = k', building = building_name,
                        date = None, hour = None\<rparr>
              | _ \<Rightarrow> None) df3)"

text \<open>
  One iteration of the loop over \<open>csv_files\<close>, on the pair of the two lists it fills.
  Both \<open>except\<close> branches append the file name to \<open>failed_files\<close>; reading is the
  statement of the body that raises.
\<close>

fun process_file :: "row list list \<times> string list \<Rightarrow> csv_file \<Rightarrow> row list list \<times> string list" where
  "process_file (combined_data, failed_files) file_path =
     (case read_csv file_path of
        ReadError \<Rightarrow> (combined_data, failed_files @ [path_name file_path])
      | Frame cols rws \<Rightarrow>
          if ''timestamp'' \<notin> set cols \<or> ''kwh'' \<notin> set cols
          then (combined_data, failed_files @ [path_name file_path])
          else (combined_data @ [clean_frame (path_stem file_path) rws], failed_files))"

definition load_files :: "csv_file list \<Rightarrow> row list list \<times> string list" where
  "load_files csv_files = foldl process_file ([], []) csv_files"

text \<open>
  \<open>sort_values\<close> is the library sort of \<open>df_combined.sort_values('timestamp')\<close>. The call
  leaves \<open>kind\<close> at its default \<open>'quicksort'\<close>, for which pandas promises an ordering by
  the key and nothing about ties; the sort is therefore a parameter, and
  \<open>sorts_by_timestamp\<close> is what is known of it. \<open>sample\<close> is the list of files that
  \<open>create_sample_data\<close> leaves in the directory (their contents are random).
\<close>

definition sorts_by_timestamp :: "(row list \<Rightarrow> row list) \<Rightarrow> bool" where
  "sorts_by_timestamp sort_values \<longleftrightarrow>
     (\<forall>xs. mset (sort_values xs) = mset xs \<and> sorted (map timestamp (sort_values xs)))"

text \<open>
  The files the loop runs over: the \<open>*.csv\<close> files of the directory, or the sample files
  when the directory is missing or holds no CSV file.
\<close>

definition find_csv_files :: "csv_file list \<Rightarrow> directory \<Rightarrow> csv_file list" where
  "find_csv_files sample data_dir =
     (let found = (case data_dir of NoDirectory \<Rightarrow> sample | Directory fs \<Rightarrow> fs)
      in if found = [] then sample else found)"

definition ingest_data ::
  "(row list \<Rightarrow> row list) \<Rightarrow> csv_file list \<Rightarrow> directory \<Rightarrow> DataFrame option \<times> string list" where
  "ingest_data sort_values sample data_dir =
     (let csv_files = find_csv_files sample data_dir;
          (combined_data, failed_files) = load_files csv_files
      in if combined_data \<noteq> []
         then (Some \<lparr>columns = [''timestamp'', ''kwh'', ''building''],
                     rows = sort_values (concat combined_data)\<rparr>, failed_files)
         else (None, failed_files))"

section \<open>Aggregation\<close>

text \<open>
  Each aggregation returns the caller's frame as the call leaves it, paired with its
  result. A \<open>groupby\<close> yields its groups in ascending key order, one group per key
  that occurs; rows whose key is null form no group. The \<open>total_kwh\<close> of the summary
  is the rounded \<open>group_sum\<close>; the other sums and the means are written with exact
  arithmetic.
\<close>

definition mean_of :: "real list \<Rightarrow> real" where
  "mean_of vs = sum_list vs / real (length vs)"

record daily_row =
  daily_date :: int
  daily_building :: string
  daily_total_kwh :: real

definition calculate_daily_totals :: "DataFrame \<Rightarrow> DataFrame \<times> daily_row list" where
  "calculate_daily_totals df =
     (let df1 = \<lparr>columns = add_column ''date'' (columns df),
                 rows = map (\<lambda>r. r\<lparr>date := Some (date_of (timestamp r))\<rparr>) (rows df)\<rparr>;
          keys = sort (remdups (List.map_filter
                   (\<lambda>r. map_option (\<lambda>d. (d, building r)) (date r)) (rows df1)))
      in (df1, map (\<lambda>(d, b).
                \<lparr>daily_date = d, daily_building = b,
                 daily_total_kwh = sum_list (map kwh
                   (filter (\<lambda>r. date r = Some d \<and> building r = b) (rows df1)))\<rparr>) keys))"

text \<open>
  Weeks: day 0 (1970-01-01) is a Thursday; \<open>weekday\<close> counts Monday as 0. \<open>'W'\<close> is
  the week ending on Sunday, closed and labelled on the right, so a timestamp belongs to the
  bucket labelled with the Sunday on or after its date. Within one building,
  \<open>resample\<close> lays out every bucket from the one of the earliest timestamp to the one of
  the latest, whether or not rows fall into it; the bucket edges are the last nanosecond of
  each Sunday, and one more bucket follows when the latest timestamp is such an edge. The
  sum of an empty bucket is 0; its mean, max and min are NaN (\<open>None\<close>).
\<close>

definition weekday :: "int \<Rightarrow> int" where
  "weekday d = (d + 3) mod 7"

definition week_end :: "int \<Rightarrow> int" where
  "week_end d = d + (6 - weekday d)"

definition week_of :: "timestamp \<Rightarrow> int" where
  "week_of t = week_end (date_of t)"

definition week_labels :: "timestamp list \<Rightarrow> int list" where
  "week_labels ts =
     (case ts of [] \<Rightarrow> []
      | t # ts' \<Rightarrow>
          let lo = fold min ts' t; hi = fold max ts' t;
              first = week_of lo;
              last = (if hi = week_of hi * ns_per_day + ns_per_day - 1
                      then week_of hi + 7 else week_of hi)
          in map (\<lambda>i. first + 7 * int i) [0 ..< nat ((last - first) div 7) + 1])"

definition nan_agg :: "(real list \<Rightarrow> real) \<Rightarrow> real list \<Rightarrow> real option" where
  "nan_agg f vs = (if vs = [] then None else Some (f vs))"

record weekly_row =
  weekly_building :: string
  weekly_timestamp :: timestamp
  weekly_total :: real
  weekly_mean :: "real option"
  weekly_max :: "real option"
  weekly_min :: "real option"

definition calculate_weekly_aggregates :: "DataFrame \<Rightarrow> DataFrame \<times> weekly_row list" where
  "calculate_weekly_aggregates df =
     (let df_copy = df in
      (df, concat (map (\<lambda>b.
             let grp = filter (\<lambda>r. building r = b) (rows df_copy)
             in map (\<lambda>w.
                  let vs = map kwh (filter (\<lambda>r. week_of (timestamp r) = w) grp)
                  in \<lparr>weekly_building = b, weekly_timestamp = w * ns_per_day,
                      weekly_total = sum_list vs, weekly_mean = nan_agg mean_of vs,
                      weekly_max = nan_agg (\<lambda>vs. Max (set vs)) vs,
                      weekly_min = nan_agg (\<lambda>vs. Min (set vs)) vs\<rparr>)
                  (week_labels (map timestamp grp)))
           (sort (remdups (map building (rows df_copy)))))))"

record summary_row =
  summary_building :: string
  total_kwh :: real
  mean_kwh :: real
  max_kwh :: real
  min_kwh :: real
  readings_count :: nat

definition building_wise_summary :: "DataFrame \<Rightarrow> DataFrame \<times> summary_row list" where
  "building_wise_summary df =
     (df, map (\<lambda>b.
            let vs = map kwh (filter (\<lambda>r. building r = b) (rows df))
            in \<lparr>summary_building = b, total_kwh = group_sum vs, mean_kwh = mean_of vs,
                max_kwh = Max (set vs), min_kwh = Min (set vs),
                readings_count = length vs\<rparr>)
          (sort (remdups (map building (rows df)))))"

record peak_row =
  peak_building :: string
  peak_hour :: int
  peak_kwh :: real

text \<open>
  \<open>idxmax\<close> gives, for each building, the label of the first row with the largest value
  among that building's rows of \<open>peak_hours\<close>; \<open>max_by\<close> finds the same row.
\<close>

definition find_peak_hours :: "DataFrame \<Rightarrow> DataFrame \<times> peak_row list" where
  "find_peak_hours df =
     (let df1 = \<lparr>columns = add_column ''hour'' (columns df),
                 rows = map (\<lambda>r. r\<lparr>hour := Some (hour_of (timestamp r))\<rparr>) (rows df)\<rparr>;
          keys = sort (remdups (List.map_filter
                   (\<lambda>r. map_option (\<lambda>h. (building r, h)) (hour r)) (rows df1)));
          peak_hours = map (\<lambda>(b, h).
                \<lparr>peak_building = b, peak_hour = h,
                 peak_kwh = mean_of (map kwh
                   (filter (\<lambda>r. building r = b \<and> hour r = Some h) (rows df1)))\<rparr>) keys;
          peak_by_building = concat (map (\<lambda>b.
                case filter (\<lambda>p. peak_building p = b) peak_hours of
                  [] \<Rightarrow> []
                | p # ps \<Rightarrow> [max_by peak_kwh p ps])
              (sort (remdups (map peak_building peak_hours))))
      in (df1, peak_by_building))"

section \<open>Building the object model\<close>

text \<open>
  The loop of \<open>main\<close> over \<open>df_combined['building'].unique()\<close>, which lists the
  names in the order of their first occurrence.
\<close>

definition unique :: "'a list \<Rightarrow> 'a list" where
  "unique xs = rev (remdups (rev xs))"

definition make_building :: "DataFrame \<Rightarrow> string \<Rightarrow> Building" where
  "make_building df building_name =
     foldl (\<lambda>b r. add_reading b (timestamp r) (kwh r))
       \<lparr>name = building_name, meter_readings = []\<rparr>
       (filter (\<lambda>r. building r = building_name) (rows df))"

definition build_manager :: "DataFrame \<Rightarrow> BuildingManager" where
  "build_manager df =
     foldl (\<lambda>m building_name. add_building m (make_building df building_name))
       \<lparr>buildings = Map.empty\<rparr> (unique (map building (rows df)))"

section \<open>Vocabulary of the proofs\<close>

text \<open>
  What one pass of the loop does with a file, said without the loop: whether the file
  passes the column check, and the frame it then adds to \<open>combined_data\<close>.
\<close>

definition structurally_valid :: "csv_file \<Rightarrow> bool" where
  "structurally_valid f =
     (case read_csv f of ReadError \<Rightarrow> False
      | Frame cols rws \<Rightarrow> ''timestamp'' \<in> set cols \<and> ''kwh'' \<in> set cols)"

definition frame_of :: "csv_file \<Rightarrow> row list" where
  "frame_of f =
     (case read_csv f of ReadError \<Rightarrow> [] | Frame cols rws \<Rightarrow> clean_frame (path_stem f) rws)"







text \<open>
  The kwh values of a building, in the order of the frame. \<open>exact_sums\<close> says that
  adding them up from left to right never rounds: every value and every partial sum is a
  float.
\<close>

definition entity_values :: "DataFrame \<Rightarrow> string \<Rightarrow> real list" where
  "entity_values df b = map kwh (filter (\<lambda>r. building r = b) (rows df))"

fun exact_from :: "real \<Rightarrow> real list \<Rightarrow> bool" where
  "exact_from s [] = True"
| "exact_from s (v # vs) =
     (round_float v = v \<and> round_float (s + v) = s + v \<and> exact_from (s + v) vs)"

definition exact_sums :: "real list \<Rightarrow> bool" where
  "exact_sums vs = exact_from 0 vs"

section \<open>Example inputs\<close>

text \<open>
  A building whose two last readings tie for the maximum; four CSV files (one with
  a negative reading and three rows that do not survive cleaning, one well-formed, one
  without the \<open>kwh\<close> column, one whose rows are all dropped) and the rows they yield;
  a frame in which building A has hours 14 and 20 tied for the highest mean; a frame in
  which building A has rows in two weeks with an empty week between them.
\<close>

definition tied_readings :: Building where
  "tied_readings = \<lparr>name = ''Library'', meter_readings =
     [\<lparr>reading_timestamp = 0, reading_kwh = 10\<rparr>, \<lparr>reading_timestamp = 1, reading_kwh = 20\<rparr>,
      \<lparr>reading_timestamp = 2, reading_kwh = 20\<rparr>]\<rparr>"

definition library_csv :: csv_file where
  "library_csv = \<lparr>path_name = ''Library.csv'', path_stem = ''Library'',
     read_csv = Frame [''timestamp'', ''kwh'']
       [\<lparr>raw_timestamp = TsValue 7200000000000, raw_kwh = KwhNumber 12\<rparr>,
        \<lparr>raw_timestamp = TsValue 3600000000000, raw_kwh = KwhNumber (- 5)\<rparr>,
        \<lparr>raw_timestamp = TsText ''yesterday'', raw_kwh = KwhNumber 3\<rparr>,
        \<lparr>raw_timestamp = TsValue 0, raw_kwh = KwhText ''n/a''\<rparr>,
        \<lparr>raw_timestamp = TsValue 0, raw_kwh = KwhMissing\<rparr>]\<rparr>"

definition gym_csv :: csv_file where
  "gym_csv = \<lparr>path_name = ''Gym.csv'', path_stem = ''Gym'',
     read_csv = Frame [''timestamp'', ''kwh'']
       [\<lparr>raw_timestamp = TsValue 3600000000000, raw_kwh = KwhNumber 7\<rparr>]\<rparr>"

definition no_kwh_csv :: csv_file where
  "no_kwh_csv = \<lparr>path_name = ''Annex.csv'', path_stem = ''Annex'',
     read_csv = Frame [''timestamp'', ''reading'']
       [\<lparr>raw_timestamp = TsValue 0, raw_kwh = KwhMissing\<rparr>]\<rparr>"

definition unusable_csv :: csv_file where
  "unusable_csv = \<lparr>path_name = ''Hall.csv'', path_stem = ''Hall'',
     read_csv = Frame [''timestamp'', ''kwh'']
       [\<lparr>raw_timestamp = TsText ''soon'', raw_kwh = KwhNumber 4\<rparr>,
        \<lparr>raw_timestamp = TsValue 0, raw_kwh = KwhText ''n/a''\<rparr>]\<rparr>"

definition library_row :: "timestamp \<Rightarrow> real \<Rightarrow> row" where
  "library_row t k = \<lparr>timestamp = t, kwh = k, building = ''Library'', date = None, hour = None\<rparr>"

definition gym_row :: row where
  "gym_row = \<lparr>timestamp = 3600000000000, kwh = 7, building = ''Gym'', date = None, hour = None\<rparr>"

definition peak_df :: DataFrame where
  "peak_df = \<lparr>columns = [''timestamp'', ''kwh'', ''building''], rows =
     [\<lparr>timestamp = 10800000000000, kwh = 10, building = ''A'', date = None, hour = None\<rparr>,
      \<lparr>timestamp = 18000000000000, kwh = 20, building = ''B'', date = None, hour = None\<rparr>,
      \<lparr>timestamp = 50400000000000, kwh = 40, building = ''A'', date = None, hour = None\<rparr>,
      \<lparr>timestamp = 72000000000000, kwh = 50, building = ''A'', date = None, hour = None\<rparr>,
      \<lparr>timestamp = 136800000000000, kwh = 60, building = ''A'', date = None, hour = None\<rparr>]\<rparr>"

definition gap_df :: DataFrame where
  "gap_df = \<lparr>columns = [''timestamp'', ''kwh'', ''building''], rows =
     [\<lparr>timestamp = 0, kwh = 10, building = ''A'', date = None, hour = None\<rparr>,
      \<lparr>timestamp = 1209600000000000, kwh = 30, building = ''A'', date = None, hour = None\<rparr>]\<rparr>"



definition rounding_df :: DataFrame where
  "rounding_df = \<lparr>columns = [''timestamp'', ''kwh'', ''building''], rows =
     [\<lparr>timestamp = 0, kwh = 9007199254740992, building = ''A'', date = None, hour = None\<rparr>,
      \<lparr>timestamp = 3600000000000, kwh = 1, building = ''A'', date = None, hour = None\<rparr>,
      \<lparr>timestamp = 7200000000000, kwh = - 9007199254740992, building = ''A'', date = None,
       hour = None\<rparr>]\<rparr>"




section \<open>Properties of the floats\<close>

lemma two_power_nat: "0 \<le> e \<Longrightarrow> two_power e = 2 ^ nat e"
  by (simp add: two_power_def)

lemma two_power_neg: "0 < k \<Longrightarrow> two_power (- int k) = 1 / 2 ^ k"
  by (simp add: two_power_def)

text \<open>
  \<open>float_exponent\<close> is the binary exponent: \<open>2^e \<le> |x| < 2^(e+1)\<close>.
\<close>

lemma float_exponent_bounds:
  assumes "x \<noteq> 0"
  shows "two_power (float_exponent x) \<le> \<bar>x\<bar> \<and> \<bar>x\<bar> < two_power (float_exponent x + 1)"
proof (cases "1 \<le> \<bar>x\<bar>")
  case True
  define m where "m = \<lfloor>\<bar>x\<bar>\<rfloor>"
  have m: "0 < m" using True by (simp add: m_def)
  from bitlen_bounds [OF m] have lo: "2 ^ nat (bitlen m - 1) \<le> m" and hi: "m < 2 ^ nat (bitlen m)"
    by simp_all
  have pos: "0 < bitlen m" using m bitlen_nonneg [of m] bitlen_eq_zero_iff [of m] by linarith
  have e: "float_exponent x = bitlen m - 1"
    using True by (simp add: float_exponent_def m_def)
  have "(2::real) ^ nat (bitlen m - 1) \<le> of_int m"
    using lo by (metis of_int_le_iff of_int_numeral of_int_power)
  also have "of_int m \<le> \<bar>x\<bar>" by (simp add: m_def)
  finally have a: "two_power (float_exponent x) \<le> \<bar>x\<bar>"
    using pos by (simp add: e two_power_nat)
  have "m + 1 \<le> 2 ^ nat (bitlen m)" using hi by simp
  then have "of_int (m + 1) \<le> (2::real) ^ nat (bitlen m)"
    by (metis of_int_le_iff of_int_numeral of_int_power)
  moreover have "\<bar>x\<bar> < of_int (m + 1)"
    unfolding m_def by linarith
  ultimately have b: "\<bar>x\<bar> < two_power (float_exponent x + 1)"
    using pos by (simp add: e two_power_nat)
  from a b show ?thesis ..
next
  case False
  define r where "r = 1 / \<bar>x\<bar>"
  define m where "m = \<lceil>r\<rceil> - 1"
  have x: "0 < \<bar>x\<bar>" "\<bar>x\<bar> < 1" using assms False by simp_all
  then have r1: "1 < r" by (simp add: r_def)
  then have m: "0 < m" unfolding m_def by linarith
  have mr: "of_int m < r" "r \<le> of_int m + 1"
    unfolding m_def by linarith+
  from bitlen_bounds [OF m] have lo: "2 ^ nat (bitlen m - 1) \<le> m" and hi: "m < 2 ^ nat (bitlen m)"
    by simp_all
  define k where "k = nat (bitlen m)"
  have pos: "0 < bitlen m" using m bitlen_nonneg [of m] bitlen_eq_zero_iff [of m] by linarith
  then have k: "0 < k" "bitlen m = int k" by (simp_all add: k_def)
  have e: "float_exponent x = - int k"
    using False k(2) by (simp only: float_exponent_def m_def r_def if_False)
  have "m + 1 \<le> 2 ^ k" using hi by (simp add: k_def)
  then have "of_int (m + 1) \<le> (2::real) ^ k"
    by (metis of_int_le_iff of_int_numeral of_int_power)
  with mr have "r \<le> 2 ^ k" by linarith
  then have "1 / 2 ^ k \<le> \<bar>x\<bar>"
    using x by (simp add: r_def field_simps)
  then have a: "two_power (float_exponent x) \<le> \<bar>x\<bar>"
    using k by (simp add: e two_power_neg)
  have "(2::real) ^ (k - 1) \<le> of_int m"
    using lo k by (metis nat_diff_distrib' nat_int nat_one_as_int of_int_le_iff of_int_numeral
        of_int_power zero_le_one of_nat_0_le_iff)
  with mr have "2 ^ (k - 1) < r" by linarith
  then have lt: "\<bar>x\<bar> < 1 / 2 ^ (k - 1)"
    using x by (simp add: r_def field_simps)
  have "two_power (float_exponent x + 1) = 1 / 2 ^ (k - 1)"
  proof (cases "k = 1")
    case True
    then show ?thesis by (simp add: e two_power_def)
  next
    case False
    with k have eq: "float_exponent x + 1 = - int (k - 1)" and "0 < k - 1"
      by (simp_all add: e)
    then show ?thesis by (simp only: two_power_neg)
  qed
  with lt have b: "\<bar>x\<bar> < two_power (float_exponent x + 1)" by simp
  from a b show ?thesis ..
qed

section \<open>Properties of the object model\<close>

lemma max_by_inv:
  assumes "i < length pre" "best = pre ! i"
    "\<forall>j<length pre. key (pre ! j) \<le> key best" "\<forall>j<i. key (pre ! j) < key best"
  shows "\<exists>i'<length (pre @ xs). max_by key best xs = (pre @ xs) ! i' \<and>
           (\<forall>j<length (pre @ xs). key ((pre @ xs) ! j) \<le> key ((pre @ xs) ! i')) \<and>
           (\<forall>j<i'. key ((pre @ xs) ! j) < key ((pre @ xs) ! i'))"
  using assms
proof (induction xs arbitrary: pre i best)
  case Nil
  then show ?case by auto
next
  case (Cons x xs)
  let ?pre = "pre @ [x]"
  show ?case
  proof (cases "key best < key x")
    case True
    have "\<exists>i'<length (?pre @ xs). max_by key x xs = (?pre @ xs) ! i' \<and>
           (\<forall>j<length (?pre @ xs). key ((?pre @ xs) ! j) \<le> key ((?pre @ xs) ! i')) \<and>
           (\<forall>j<i'. key ((?pre @ xs) ! j) < key ((?pre @ xs) ! i'))"
    proof (rule Cons.IH [of "length pre"])
      show "length pre < length ?pre" by simp
      show "x = ?pre ! length pre" by simp
      show "\<forall>j<length ?pre. key (?pre ! j) \<le> key x"
        using Cons.prems(3) True by (auto simp: nth_append less_Suc_eq intro: order_trans less_imp_le)
      show "\<forall>j<length pre. key (?pre ! j) < key x"
        using Cons.prems(3) True by (auto simp: nth_append)
    qed
    with True show ?thesis by simp
  next
    case False
    have "\<exists>i'<length (?pre @ xs). max_by key best xs = (?pre @ xs) ! i' \<and>
           (\<forall>j<length (?pre @ xs). key ((?pre @ xs) ! j) \<le> key ((?pre @ xs) ! i')) \<and>
           (\<forall>j<i'. key ((?pre @ xs) ! j) < key ((?pre @ xs) ! i'))"
    proof (rule Cons.IH [of i])
      show "i < length ?pre" using Cons.prems(1) by simp
      show "best = ?pre ! i" using Cons.prems(1,2) by (simp add: nth_append)
      show "\<forall>j<length ?pre. key (?pre ! j) \<le> key best"
        using Cons.prems(3) False by (auto simp: nth_append less_Suc_eq)
      show "\<forall>j<i. key (?pre ! j) < key best"
        using Cons.prems(1,4) by (auto simp: nth_append)
    qed
    with False show ?thesis by simp
  qed
qed

lemma max_by_first_max:
  "\<exists>i<length (x # xs). max_by key x xs = (x # xs) ! i \<and>
     (\<forall>j<length (x # xs). key ((x # xs) ! j) \<le> key ((x # xs) ! i)) \<and>
     (\<forall>j<i. key ((x # xs) ! j) < key ((x # xs) ! i))"
  using max_by_inv [of 0 "[x]" x key xs] by simp

text \<open>
  C9. For a building with at least one reading, \<open>get_peak_consumption\<close> returns a
  reading of maximal kwh, and among the readings of maximal kwh the first one in the stored
  order: every reading before it has a strictly smaller kwh.
\<close>

theorem get_peak_consumption_first_max:
  assumes "meter_readings b \<noteq> []"
  shows "\<exists>i<length (meter_readings b).
           get_peak_consumption b = Some (meter_readings b ! i) \<and>
           (\<forall>j<length (meter_readings b).
              reading_kwh (meter_readings b ! j) \<le> reading_kwh (meter_readings b ! i)) \<and>
           (\<forall>j<i. reading_kwh (meter_readings b ! j) < reading_kwh (meter_readings b ! i))"
proof -
  from assms obtain r rs where rs: "meter_readings b = r # rs"
    by (cases "meter_readings b") auto
  show ?thesis
    using max_by_first_max [of r rs reading_kwh] by (simp add: get_peak_consumption_def rs)
qed

theorem get_peak_consumption_first_max_witness:
  "meter_readings tied_readings \<noteq> [] \<and>
   get_peak_consumption tied_readings = Some \<lparr>reading_timestamp = 1, reading_kwh = 20\<rparr>"
proof -
  have ne: "meter_readings tied_readings \<noteq> []" by (simp add: tied_readings_def)
  from get_peak_consumption_first_max [OF ne] obtain i where
    "i < length (meter_readings tied_readings)"
    "get_peak_consumption tied_readings = Some (meter_readings tied_readings ! i)"
    "\<forall>j<i. reading_kwh (meter_readings tied_readings ! j) < reading_kwh (meter_readings tied_readings ! i)"
    "\<forall>j<length (meter_readings tied_readings). reading_kwh (meter_readings tied_readings ! j) \<le> reading_kwh (meter_readings tied_readings ! i)"
    by blast
  then show ?thesis
    by (simp add: tied_readings_def get_peak_consumption_def)
qed

text \<open>
  C10. For a building without readings, \<open>calculate_total_consumption\<close> returns 0,
  \<open>calculate_average_consumption\<close> returns 0 and raises nothing, although the division
  it guards would raise \<open>ZeroDivisionError\<close> there, and \<open>get_peak_consumption\<close>
  returns \<open>None\<close>.
\<close>

theorem empty_building_statistics:
  "calculate_total_consumption \<lparr>name = n, meter_readings = []\<rparr> = 0 \<and>
   calculate_average_consumption \<lparr>name = n, meter_readings = []\<rparr> = Inr 0 \<and>
   truediv (calculate_total_consumption \<lparr>name = n, meter_readings = []\<rparr>)
     (real (length (meter_readings \<lparr>name = n, meter_readings = []\<rparr>))) =
     Inl ZeroDivisionError \<and>
   get_peak_consumption \<lparr>name = n, meter_readings = []\<rparr> = None"
  by (simp add: calculate_total_consumption_def calculate_average_consumption_def
      get_peak_consumption_def sum_builtin_def truediv_def)

section \<open>Properties of ingestion\<close>

lemma clean_frame_Nil: "clean_frame b [] = []"
  by (simp add: clean_frame_def List.map_filter_simps)

lemma clean_frame_Cons:
  "clean_frame b (raw # rws) =
     (case (raw_timestamp raw, raw_kwh raw) of
        (TsValue t, KwhNumber k) \<Rightarrow>
          \<lparr>timestamp = t, kwh = k, building = b, date = None, hour = None\<rparr> # clean_frame b rws
      | _ \<Rightarrow> clean_frame b rws)"
  by (cases "raw_timestamp raw"; cases "raw_kwh raw")
     (simp_all add: clean_frame_def List.map_filter_simps)

lemma set_clean_frame:
  "r \<in> set (clean_frame b rws) \<longleftrightarrow>
     building r = b \<and> date r = None \<and> hour r = None \<and>
     (\<exists>raw\<in>set rws. raw_timestamp raw = TsValue (timestamp r) \<and> raw_kwh raw = KwhNumber (kwh r))"
proof (induction rws)
  case Nil
  then show ?case by (simp add: clean_frame_Nil)
next
  case (Cons raw rws)
  show ?case
    by (cases "raw_timestamp raw"; cases "raw_kwh raw")
       (auto simp: clean_frame_Cons Cons.IH)
qed

lemma foldl_process_file:
  "foldl process_file (cd, ff) fs =
     (cd @ map frame_of (filter structurally_valid fs),
      ff @ map path_name (filter (\<lambda>f. \<not> structurally_valid f) fs))"
proof (induction fs arbitrary: cd ff)
  case Nil
  then show ?case by simp
next
  case (Cons f fs)
  show ?case
    by (cases "read_csv f") (auto simp: Cons.IH structurally_valid_def frame_of_def)
qed

lemma load_files_eq:
  "load_files fs =
     (map frame_of (filter structurally_valid fs),
      map path_name (filter (\<lambda>f. \<not> structurally_valid f) fs))"
  by (simp add: load_files_def foldl_process_file)

lemma ingest_data_eq:
  "ingest_data sort_values sample data_dir =
     (let fs = find_csv_files sample data_dir;
          failed = map path_name (filter (\<lambda>f. \<not> structurally_valid f) fs)
      in if filter structurally_valid fs \<noteq> []
         then (Some \<lparr>columns = [''timestamp'', ''kwh'', ''building''],
                 rows = sort_values (concat (map frame_of (filter structurally_valid fs)))\<rparr>, failed)
         else (None, failed))"
  by (simp add: ingest_data_def load_files_eq Let_def)

lemma ingest_data_None_iff:
  "fst (ingest_data sort_values sample data_dir) = None \<longleftrightarrow>
     filter structurally_valid (find_csv_files sample data_dir) = []"
  by (simp add: ingest_data_eq Let_def)

lemma sorts_by_timestamp_set:
  "sorts_by_timestamp sort_values \<Longrightarrow> set (sort_values xs) = set xs"
  unfolding sorts_by_timestamp_def by (metis set_mset_mset)

lemma sorts_by_timestamp_sort_key: "sorts_by_timestamp (sort_key timestamp)"
  by (simp add: sorts_by_timestamp_def)

lemma in_frame_of:
  "structurally_valid f \<and> r \<in> set (frame_of f) \<longleftrightarrow>
     (\<exists>cols rws. read_csv f = Frame cols rws \<and> ''timestamp'' \<in> set cols \<and>
        ''kwh'' \<in> set cols \<and> building r = path_stem f \<and> date r = None \<and> hour r = None \<and>
        (\<exists>raw\<in>set rws. raw_timestamp raw = TsValue (timestamp r) \<and>
                         raw_kwh raw = KwhNumber (kwh r)))"
  by (cases "read_csv f") (auto simp: structurally_valid_def frame_of_def set_clean_frame)

lemma filter_remove1_other:
  "\<not> P x \<Longrightarrow> filter P (remove1 x xs) = filter P xs"
  by (induction xs) auto

lemma concat_frames_remove1:
  "frame_of f = [] \<Longrightarrow>
   concat (map frame_of (filter structurally_valid (remove1 f fs))) =
   concat (map frame_of (filter structurally_valid fs))"
  by (induction fs) auto

lemma all_dropped_frame_of:
  assumes "read_csv f = Frame cols rws"
    and "\<forall>raw\<in>set rws. to_datetime (raw_timestamp raw) = None \<or> to_numeric (raw_kwh raw) = None"
  shows "frame_of f = []"
proof -
  have "r \<notin> set (clean_frame (path_stem f) rws)" for r
    using assms(2) by (auto simp: set_clean_frame)
  then have "clean_frame (path_stem f) rws = []"
    by (meson last_in_set)
  with assms(1) show ?thesis by (simp add: frame_of_def)
qed

subsection \<open>Example files\<close>

lemma frame_of_library_csv:
  "frame_of library_csv = [library_row 7200000000000 12, library_row 3600000000000 (- 5)]"
  by (simp add: frame_of_def library_csv_def clean_frame_Cons clean_frame_Nil library_row_def)

lemma frame_of_gym_csv: "frame_of gym_csv = [gym_row]"
  by (simp add: frame_of_def gym_csv_def clean_frame_Cons clean_frame_Nil gym_row_def)

lemma frame_of_unusable_csv: "frame_of unusable_csv = []"
  by (simp add: frame_of_def unusable_csv_def clean_frame_Cons clean_frame_Nil)

lemma valid_examples:
  "structurally_valid library_csv" "structurally_valid gym_csv"
  "\<not> structurally_valid no_kwh_csv" "structurally_valid unusable_csv"
  by (simp_all add: structurally_valid_def library_csv_def gym_csv_def no_kwh_csv_def
      unusable_csv_def)

lemma ingest_library_csv:
  "ingest_data (sort_key timestamp) [] (Directory [library_csv]) =
     (Some \<lparr>columns = [''timestamp'', ''kwh'', ''building''],
             rows = [library_row 3600000000000 (- 5), library_row 7200000000000 12]\<rparr>, [])"
  by (simp add: ingest_data_eq find_csv_files_def valid_examples frame_of_library_csv
      library_row_def)

lemma ingest_three_files:
  "ingest_data (sort_key timestamp) [] (Directory [gym_csv, no_kwh_csv, unusable_csv]) =
     (Some \<lparr>columns = [''timestamp'', ''kwh'', ''building''], rows = [gym_row]\<rparr>, [''Annex.csv''])"
  by (simp add: ingest_data_eq find_csv_files_def valid_examples frame_of_unusable_csv
      frame_of_gym_csv) (simp add: no_kwh_csv_def)

subsection \<open>The claims on ingestion\<close>

text \<open>
  C1, as the code has it. The rows of the frame that \<open>ingest_data\<close> returns are exactly
  the rows of the files with both columns whose timestamp parses and whose kwh is a number:
  every returned row stems from such a raw row, so none has a null timestamp or a null or
  non-numeric kwh, and every such raw row is returned. The sign of kwh is not looked at.
\<close>

theorem ingest_data_rows_parsed:
  assumes "sorts_by_timestamp sort_values"
    and "ingest_data sort_values sample data_dir = (Some df, failed)"
  shows "r \<in> set (rows df) \<longleftrightarrow>
     date r = None \<and> hour r = None \<and>
     (\<exists>f\<in>set (find_csv_files sample data_dir). \<exists>cols rws.
        read_csv f = Frame cols rws \<and> ''timestamp'' \<in> set cols \<and> ''kwh'' \<in> set cols \<and>
        building r = path_stem f \<and>
        (\<exists>raw\<in>set rws. raw_timestamp raw = TsValue (timestamp r) \<and>
                         raw_kwh raw = KwhNumber (kwh r)))"
proof -
  let ?fs = "find_csv_files sample data_dir"
  from assms(2) have "rows df = sort_values (concat (map frame_of (filter structurally_valid ?fs)))"
    by (auto simp: ingest_data_eq Let_def split: if_splits)
  then have "r \<in> set (rows df) \<longleftrightarrow> (\<exists>f\<in>set ?fs. structurally_valid f \<and> r \<in> set (frame_of f))"
    using sorts_by_timestamp_set [OF assms(1)] by auto
  then show ?thesis
    unfolding in_frame_of by blast
qed

theorem ingest_data_rows_parsed_witness:
  "sorts_by_timestamp (sort_key timestamp) \<and>
   ingest_data (sort_key timestamp) [] (Directory [library_csv]) =
     (Some \<lparr>columns = [''timestamp'', ''kwh'', ''building''],
             rows = [library_row 3600000000000 (- 5), library_row 7200000000000 12]\<rparr>, []) \<and>
   library_row 3600000000000 (- 5) \<in> set (rows \<lparr>columns = [''timestamp'', ''kwh'', ''building''],
             rows = [library_row 3600000000000 (- 5), library_row 7200000000000 12]\<rparr>) \<and>
   (\<exists>raw\<in>set [\<lparr>raw_timestamp = TsValue 3600000000000, raw_kwh = KwhNumber (- 5)\<rparr>].
      raw_timestamp raw = TsValue (timestamp (library_row 3600000000000 (- 5))) \<and>
      raw_kwh raw = KwhNumber (kwh (library_row 3600000000000 (- 5))))"
  using ingest_data_rows_parsed [OF sorts_by_timestamp_sort_key ingest_library_csv,
      of "library_row 3600000000000 (- 5)"]
  by (simp add: sorts_by_timestamp_sort_key ingest_library_csv library_row_def)

text \<open>
  C1 as stated fails: a row with kwh \<open>-5\<close> is returned, not dropped.
\<close>

theorem ingest_data_keeps_negative_kwh:
  "ingest_data (sort_key timestamp) [] (Directory [library_csv]) =
     (Some \<lparr>columns = [''timestamp'', ''kwh'', ''building''],
             rows = [\<lparr>timestamp = 3600000000000, kwh = - 5, building = ''Library'',
                      date = None, hour = None\<rparr>,
                     \<lparr>timestamp = 7200000000000, kwh = 12, building = ''Library'',
                      date = None, hour = None\<rparr>]\<rparr>, [])"
  using ingest_library_csv by (simp add: library_row_def)

text \<open>
  C2. A file with both columns whose rows are all dropped still adds its (empty) frame to
  \<open>combined_data\<close>, so the test \<open>if combined_data\<close> succeeds and \<open>ingest_data\<close>
  returns a frame without rows instead of \<open>None\<close>.
\<close>

theorem ingest_data_empty_frame:
  "ingest_data (sort_key timestamp) [] (Directory [unusable_csv]) =
     (Some \<lparr>columns = [''timestamp'', ''kwh'', ''building''], rows = []\<rparr>, [])"
  by (simp add: ingest_data_eq find_csv_files_def valid_examples frame_of_unusable_csv)

text \<open>
  C7. Among the files of a directory (their names are distinct), a file that lacks the
  \<open>timestamp\<close> or the \<open>kwh\<close> column has its name in the failure list and adds no
  row: the returned rows are those of the other files. A file with both columns whose rows
  are all dropped is not in the failure list, and it adds no row either.
\<close>

theorem structural_rejection:
  assumes "f \<in> set fs" and "distinct (map path_name fs)"
    and "read_csv f = Frame cols rws"
    and "ingest_data sort_values sample (Directory fs) = (dataset, failed)"
  shows "(''timestamp'' \<notin> set cols \<or> ''kwh'' \<notin> set cols \<longrightarrow>
            path_name f \<in> set failed \<and>
            (\<forall>df. dataset = Some df \<longrightarrow>
               rows df = sort_values (concat (fst (load_files (remove1 f fs)))))) \<and>
         (''timestamp'' \<in> set cols \<and> ''kwh'' \<in> set cols \<and>
          (\<forall>raw\<in>set rws. to_datetime (raw_timestamp raw) = None \<or>
                           to_numeric (raw_kwh raw) = None) \<longrightarrow>
            path_name f \<notin> set failed \<and>
            dataset = Some \<lparr>columns = [''timestamp'', ''kwh'', ''building''],
                            rows = sort_values (concat (fst (load_files (remove1 f fs))))\<rparr>)"
proof -
  have fs: "find_csv_files sample (Directory fs) = fs"
    using assms(1) by (auto simp: find_csv_files_def)
  have failed: "failed = map path_name (filter (\<lambda>f. \<not> structurally_valid f) fs)"
    using assms(4) by (auto simp: ingest_data_eq fs Let_def split: if_splits)
  have ds: "dataset = (if filter structurally_valid fs \<noteq> []
              then Some \<lparr>columns = [''timestamp'', ''kwh'', ''building''],
                 rows = sort_values (concat (map frame_of (filter structurally_valid fs)))\<rparr>
              else None)"
    using assms(4) by (auto simp: ingest_data_eq fs Let_def split: if_splits)
  have part1: "path_name f \<in> set failed \<and>
      (\<forall>df. dataset = Some df \<longrightarrow>
         rows df = sort_values (concat (fst (load_files (remove1 f fs)))))"
    if "''timestamp'' \<notin> set cols \<or> ''kwh'' \<notin> set cols"
  proof -
    from that assms(3) have nv: "\<not> structurally_valid f"
      by (auto simp: structurally_valid_def)
    with assms(1) have "path_name f \<in> set failed"
      by (auto simp: failed)
    moreover have "filter structurally_valid (remove1 f fs) = filter structurally_valid fs"
      using nv by (rule filter_remove1_other)
    ultimately show ?thesis
      by (auto simp: ds load_files_eq split: if_splits)
  qed
  have part2: "path_name f \<notin> set failed \<and>
      dataset = Some \<lparr>columns = [''timestamp'', ''kwh'', ''building''],
                      rows = sort_values (concat (fst (load_files (remove1 f fs))))\<rparr>"
    if cols: "''timestamp'' \<in> set cols \<and> ''kwh'' \<in> set cols"
      and dropped: "\<forall>raw\<in>set rws. to_datetime (raw_timestamp raw) = None \<or>
                           to_numeric (raw_kwh raw) = None"
  proof -
    from cols assms(3) have v: "structurally_valid f"
      by (auto simp: structurally_valid_def)
    have "g \<in> set fs \<Longrightarrow> path_name g = path_name f \<Longrightarrow> g = f" for g
      using assms(1,2) by (meson distinct_map inj_onD)
    with v have "path_name f \<notin> set failed"
      by (auto simp: failed)
    moreover have "filter structurally_valid fs \<noteq> []"
      using v assms(1) by (auto simp: filter_empty_conv)
    moreover have "frame_of f = []"
      using assms(3) dropped by (rule all_dropped_frame_of)
    ultimately show ?thesis
      by (simp add: ds load_files_eq concat_frames_remove1)
  qed
  from part1 part2 show ?thesis by blast
qed

theorem structural_rejection_witness:
  "ingest_data (sort_key timestamp) [] (Directory [gym_csv, no_kwh_csv, unusable_csv]) =
     (Some \<lparr>columns = [''timestamp'', ''kwh'', ''building''], rows = [gym_row]\<rparr>, [''Annex.csv'']) \<and>
   distinct (map path_name [gym_csv, no_kwh_csv, unusable_csv]) \<and>
   read_csv no_kwh_csv = Frame [''timestamp'', ''reading'']
       [\<lparr>raw_timestamp = TsValue 0, raw_kwh = KwhMissing\<rparr>] \<and>
   path_name no_kwh_csv \<in> set [''Annex.csv''] \<and>
   path_name unusable_csv \<notin> set [''Annex.csv''] \<and>
   [gym_row] = sort_key timestamp (concat (fst (load_files (remove1 no_kwh_csv [gym_csv, no_kwh_csv, unusable_csv])))) \<and>
   [gym_row] = sort_key timestamp (concat (fst (load_files (remove1 unusable_csv [gym_csv, no_kwh_csv, unusable_csv]))))"
proof -
  have d: "distinct (map path_name [gym_csv, no_kwh_csv, unusable_csv])"
    by (simp add: gym_csv_def no_kwh_csv_def unusable_csv_def)
  have r1: "read_csv no_kwh_csv = Frame [''timestamp'', ''reading'']
       [\<lparr>raw_timestamp = TsValue 0, raw_kwh = KwhMissing\<rparr>]"
    by (simp add: no_kwh_csv_def)
  have r2: "read_csv unusable_csv = Frame [''timestamp'', ''kwh'']
       [\<lparr>raw_timestamp = TsText ''soon'', raw_kwh = KwhNumber 4\<rparr>,
        \<lparr>raw_timestamp = TsValue 0, raw_kwh = KwhText ''n/a''\<rparr>]"
    by (simp add: unusable_csv_def)
  have m1: "no_kwh_csv \<in> set [gym_csv, no_kwh_csv, unusable_csv]" by simp
  have m2: "unusable_csv \<in> set [gym_csv, no_kwh_csv, unusable_csv]" by simp
  note a = structural_rejection [OF m1 d r1 ingest_three_files]
  note b = structural_rejection [OF m2 d r2 ingest_three_files]
  from a have "path_name no_kwh_csv \<in> set [''Annex.csv''] \<and>
     [gym_row] = sort_key timestamp (concat (fst (load_files (remove1 no_kwh_csv [gym_csv, no_kwh_csv, unusable_csv]))))"
    by simp
  moreover from b have "path_name unusable_csv \<notin> set [''Annex.csv''] \<and>
     [gym_row] = sort_key timestamp (concat (fst (load_files (remove1 unusable_csv [gym_csv, no_kwh_csv, unusable_csv]))))"
    by simp
  ultimately show ?thesis
    using d r1 ingest_three_files by simp
qed

section \<open>Properties of the aggregations\<close>










lemma sorted_distinct_nth_less:
  fixes xs :: "('a::linorder) list"
  assumes "sorted xs" "distinct xs" "j < i" "i < length xs"
  shows "xs ! j < xs ! i"
proof -
  have "xs ! j \<le> xs ! i"
    using assms by (simp add: sorted_nth_mono)
  moreover have "xs ! j \<noteq> xs ! i"
    using assms by (simp add: nth_eq_iff_index_eq)
  ultimately show ?thesis by simp
qed


















lemma filter_eq_singleton: "distinct xs \<Longrightarrow> x \<in> set xs \<Longrightarrow> filter (\<lambda>y. y = x) xs = [x]"
  by (induction xs) (auto simp: filter_empty_conv)




lemma weekly_gap_df:
  "snd (calculate_weekly_aggregates gap_df) =
     [\<lparr>weekly_building = ''A'', weekly_timestamp = 259200000000000, weekly_total = 10,
       weekly_mean = Some 10, weekly_max = Some 10, weekly_min = Some 10\<rparr>,
      \<lparr>weekly_building = ''A'', weekly_timestamp = 864000000000000, weekly_total = 0,
       weekly_mean = None, weekly_max = None, weekly_min = None\<rparr>,
      \<lparr>weekly_building = ''A'', weekly_timestamp = 1468800000000000, weekly_total = 30,
       weekly_mean = Some 30, weekly_max = Some 30, weekly_min = Some 30\<rparr>]"
  by code_simp











section \<open>Properties of the summary and the object model built from it\<close>

lemma set_unique: "set (unique xs) = set xs"
  by (simp add: unique_def)

lemma make_building_foldl:
  "foldl (\<lambda>b r. add_reading b (timestamp r) (kwh r)) bld rs =
     bld\<lparr>meter_readings := meter_readings bld @
        map (\<lambda>r. \<lparr>reading_timestamp = timestamp r, reading_kwh = kwh r\<rparr>) rs\<rparr>"
  by (induction rs arbitrary: bld) (simp_all add: add_reading_def)

lemma make_building_eq:
  "make_building df b =
     \<lparr>name = b, meter_readings =
        map (\<lambda>r. \<lparr>reading_timestamp = timestamp r, reading_kwh = kwh r\<rparr>)
          (filter (\<lambda>r. building r = b) (rows df))\<rparr>"
  by (simp add: make_building_def make_building_foldl)

lemma readings_make_building:
  "map reading_kwh (meter_readings (make_building df b)) = entity_values df b"
  by (simp add: make_building_eq entity_values_def comp_def)

lemma total_make_building:
  "calculate_total_consumption (make_building df b) = sum_builtin (entity_values df b)"
  by (simp add: calculate_total_consumption_def readings_make_building)

lemma buildings_foldl:
  "buildings (foldl (\<lambda>m n. add_building m (make_building df n)) m0 ns) k =
     (if k \<in> set ns then Some (make_building df k) else buildings m0 k)"
  by (induction ns arbitrary: m0) (auto simp: add_building_def make_building_eq)

lemma get_building_build_manager:
  "b \<in> building ` set (rows df) \<Longrightarrow>
   get_building (build_manager df) b = Some (make_building df b)"
  by (simp add: get_building_def build_manager_def buildings_foldl set_unique)

lemma round_float_0: "round_float 0 = 0"
  by (simp add: round_float_def)

lemma sum_builtin_exact:
  "exact_from s vs \<Longrightarrow> foldl float_add s vs = s + sum_list vs"
  by (induction vs arbitrary: s) (simp_all add: float_add_def add.assoc)

lemma kahan_exact:
  "exact_from s vs \<Longrightarrow> foldl kahan_step (s, 0) vs = (s + sum_list vs, 0)"
proof (induction vs arbitrary: s)
  case Nil
  then show ?case by simp
next
  case (Cons v vs)
  then have v: "round_float v = v" and sv: "round_float (s + v) = s + v"
    and rest: "exact_from (s + v) vs"
    by simp_all
  have "kahan_step (s, 0) v = (s + v, 0)"
    by (simp add: kahan_step_def float_sub_def float_add_def v sv round_float_0)
  with Cons.IH [OF rest] show ?case
    by (simp add: add.assoc)
qed

lemma exact_sums_totals:
  assumes "exact_sums vs"
  shows "group_sum vs = sum_list vs" "sum_builtin vs = sum_list vs"
  using assms kahan_exact [of 0 vs] sum_builtin_exact [of 0 vs]
  by (simp_all add: exact_sums_def group_sum_def sum_builtin_def)

lemma sum_groups:
  assumes "finite S" "f ` set rs \<subseteq> S"
  shows "(\<Sum>b\<in>S. sum_list (map g (filter (\<lambda>r. f r = b) rs))) = sum_list (map g rs)"
  using assms(2)
proof (induction rs)
  case Nil
  then show ?case by simp
next
  case (Cons r rs)
  have "(\<Sum>b\<in>S. sum_list (map g (filter (\<lambda>x. f x = b) (r # rs)))) =
        (\<Sum>b\<in>S. (if f r = b then g r else 0) + sum_list (map g (filter (\<lambda>x. f x = b) rs)))"
    by (intro sum.cong) auto
  also have "\<dots> = (\<Sum>b\<in>S. if f r = b then g r else 0) +
        (\<Sum>b\<in>S. sum_list (map g (filter (\<lambda>x. f x = b) rs)))"
    by (rule sum.distrib)
  also have "(\<Sum>b\<in>S. if f r = b then g r else 0) = g r"
    using assms(1) Cons.prems by (simp add: sum.delta')
  finally show ?case using Cons by simp
qed

lemma summary_rows:
  "snd (building_wise_summary df) =
     map (\<lambda>b. \<lparr>summary_building = b,
            total_kwh = group_sum (entity_values df b),
            mean_kwh = mean_of (entity_values df b),
            max_kwh = Max (set (entity_values df b)),
            min_kwh = Min (set (entity_values df b)),
            readings_count = length (entity_values df b)\<rparr>)
       (sort (remdups (map building (rows df))))"
  by (simp add: building_wise_summary_def Let_def entity_values_def)

lemma summary_total_sum:
  assumes "\<forall>c\<in>building ` set (rows df). exact_sums (entity_values df c)"
  shows "sum_list (map total_kwh (snd (building_wise_summary df))) = sum_list (map kwh (rows df))"
proof -
  let ?B = "sort (remdups (map building (rows df)))"
  have "map total_kwh (snd (building_wise_summary df)) = map (\<lambda>b. group_sum (entity_values df b)) ?B"
    by (simp add: summary_rows comp_def)
  also have "\<dots> = map (\<lambda>b. sum_list (entity_values df b)) ?B"
    using assms by (intro map_cong refl exact_sums_totals) auto
  finally have "sum_list (map total_kwh (snd (building_wise_summary df))) =
        sum_list (map (\<lambda>b. sum_list (entity_values df b)) ?B)"
    by simp
  also have "\<dots> = (\<Sum>b\<in>set ?B. sum_list (entity_values df b))"
    by (rule sum_list_distinct_conv_sum_set) simp
  also have "\<dots> = sum_list (map kwh (rows df))"
    unfolding entity_values_def by (rule sum_groups) auto
  finally show ?thesis .
qed

lemma summary_filter:
  assumes "b \<in> building ` set (rows df)"
  shows "filter (\<lambda>s. summary_building s = b) (snd (building_wise_summary df)) =
     [\<lparr>summary_building = b,
       total_kwh = group_sum (entity_values df b),
       mean_kwh = mean_of (entity_values df b),
       max_kwh = Max (set (entity_values df b)),
       min_kwh = Min (set (entity_values df b)),
       readings_count = length (entity_values df b)\<rparr>]"
proof -
  let ?B = "sort (remdups (map building (rows df)))"
  have "distinct ?B" "b \<in> set ?B"
    using assms by simp_all
  then have "filter (\<lambda>y. y = b) ?B = [b]"
    by (rule filter_eq_singleton)
  then show ?thesis
    by (simp add: summary_rows filter_map comp_def)
qed

text \<open>
  C8, as the code has it. For every building of the frame, the summary holds exactly one
  row. Its \<open>total_kwh\<close> is pandas' group sum of the building's kwh values; the Building
  object that \<open>main\<close> fills from the frame holds exactly these values as its readings, in
  the same order, and \<open>calculate_total_consumption\<close> is Python's builtin sum of them.
  When adding the values up never rounds, both are the exact sum of the building's kwh; and
  when this is so for every building, the \<open>total_kwh\<close> of all summary rows add up to the
  sum of kwh over the whole frame.
\<close>

theorem summary_totals_when_exact:
  assumes "b \<in> building ` set (rows df)"
  shows "(\<exists>s bld. filter (\<lambda>x. summary_building x = b) (snd (building_wise_summary df)) = [s] \<and>
            total_kwh s = group_sum (entity_values df b) \<and>
            get_building (build_manager df) b = Some bld \<and>
            map reading_kwh (meter_readings bld) = entity_values df b \<and>
            calculate_total_consumption bld = sum_builtin (entity_values df b) \<and>
            (exact_sums (entity_values df b) \<longrightarrow>
               total_kwh s = sum_list (entity_values df b) \<and>
               calculate_total_consumption bld = sum_list (entity_values df b))) \<and>
         ((\<forall>c\<in>building ` set (rows df). exact_sums (entity_values df c)) \<longrightarrow>
            sum_list (map total_kwh (snd (building_wise_summary df))) =
            sum_list (map kwh (rows df)))"
  using summary_filter [OF assms] get_building_build_manager [OF assms]
    total_make_building [of df b] readings_make_building [of df b]
    exact_sums_totals [of "entity_values df b"] summary_total_sum [of df]
  by simp

lemma values_peak_df:
  "entity_values peak_df ''A'' = [10, 40, 50, 60]" "entity_values peak_df ''B'' = [20]"
  "building ` set (rows peak_df) = {''A'', ''B''}"
  by (auto simp: entity_values_def peak_df_def)

lemma exact_peak_df:
  "exact_sums [10, 40, 50, 60]" "exact_sums [20]"
  by code_simp+

lemma totals_peak_df:
  "map total_kwh (snd (building_wise_summary peak_df)) = [160, 20]"
  "sum_list (map kwh (rows peak_df)) = 180"
  by code_simp+

theorem summary_totals_when_exact_witness:
  "''A'' \<in> building ` set (rows peak_df) \<and>
   entity_values peak_df ''A'' = [10, 40, 50, 60] \<and> exact_sums [10, 40, 50, 60] \<and>
   exact_sums (entity_values peak_df ''B'') \<and>
   (\<exists>s bld. filter (\<lambda>x. summary_building x = ''A'') (snd (building_wise_summary peak_df)) = [s] \<and>
      total_kwh s = 160 \<and>
      get_building (build_manager peak_df) ''A'' = Some bld \<and>
      map reading_kwh (meter_readings bld) = [10, 40, 50, 60] \<and>
      calculate_total_consumption bld = 160) \<and>
   sum_list (map total_kwh (snd (building_wise_summary peak_df))) = 180"
proof -
  have a: "''A'' \<in> building ` set (rows peak_df)"
    by (simp add: values_peak_df)
  have all: "\<forall>c\<in>building ` set (rows peak_df). exact_sums (entity_values peak_df c)"
    by (simp add: values_peak_df exact_peak_df)
  from summary_totals_when_exact [OF a] all show ?thesis
    using a by (auto simp: values_peak_df exact_peak_df totals_peak_df)
qed

text \<open>
  C8 as stated fails: for the kwh values \<open>2^53\<close>, 1, \<open>-2^53\<close> of one building the
  summary's \<open>total_kwh\<close> is 1 and the Building's \<open>calculate_total_consumption\<close> is 0.
\<close>

theorem summary_total_differs_from_readings_total:
  "map kwh (rows rounding_df) = [9007199254740992, 1, - 9007199254740992] \<and>
   map total_kwh (snd (building_wise_summary rounding_df)) = [1] \<and>
   map_option calculate_total_consumption (get_building (build_manager rounding_df) ''A'') =
     Some 0"
  by code_simp

section \<open>What the aggregations do to the frame\<close>

lemma unchanged_by_weekly_and_summary:
  "fst (calculate_weekly_aggregates df) = df" "fst (building_wise_summary df) = df"
  by (simp_all add: calculate_weekly_aggregates_def building_wise_summary_def Let_def)

lemma daily_totals_frame:
  "fst (calculate_daily_totals df) =
     \<lparr>columns = add_column ''date'' (columns df),
      rows = map (\<lambda>r. r\<lparr>date := Some (date_of (timestamp r))\<rparr>) (rows df)\<rparr>"
  by (simp add: calculate_daily_totals_def Let_def)

lemma peak_hours_frame:
  "fst (find_peak_hours df) =
     \<lparr>columns = add_column ''hour'' (columns df),
      rows = map (\<lambda>r. r\<lparr>hour := Some (hour_of (timestamp r))\<rparr>) (rows df)\<rparr>"
  by (simp add: find_peak_hours_def Let_def)

text \<open>
  C4. \<open>calculate_weekly_aggregates\<close> works on a copy and \<open>building_wise_summary\<close> only
  reads, so both leave the frame as it was. \<open>calculate_daily_totals\<close> assigns
  \<open>df['date']\<close> and \<open>find_peak_hours\<close> assigns \<open>df['hour']\<close> on the caller's frame:
  after the call the frame has one column more and every row carries the new value.
\<close>

theorem views_change_the_frame:
  "fst (calculate_weekly_aggregates gap_df) = gap_df \<and>
   fst (building_wise_summary gap_df) = gap_df \<and>
   fst (calculate_daily_totals gap_df) =
     \<lparr>columns = [''timestamp'', ''kwh'', ''building'', ''date''], rows =
       [\<lparr>timestamp = 0, kwh = 10, building = ''A'', date = Some 0, hour = None\<rparr>,
        \<lparr>timestamp = 1209600000000000, kwh = 30, building = ''A'', date = Some 14,
         hour = None\<rparr>]\<rparr> \<and>
   fst (calculate_daily_totals gap_df) \<noteq> gap_df \<and>
   fst (find_peak_hours gap_df) =
     \<lparr>columns = [''timestamp'', ''kwh'', ''building'', ''hour''], rows =
       [\<lparr>timestamp = 0, kwh = 10, building = ''A'', date = None, hour = Some 0\<rparr>,
        \<lparr>timestamp = 1209600000000000, kwh = 30, building = ''A'', date = None,
         hour = Some 0\<rparr>]\<rparr> \<and>
   fst (find_peak_hours gap_df) \<noteq> gap_df"
  by (simp add: unchanged_by_weekly_and_summary daily_totals_frame peak_hours_frame gap_df_def
      add_column_def date_of_def hour_of_def ns_per_day_def ns_per_hour_def)

end
